theory Spec2Isabelle
  imports Complex_Main "HOL-Library.Multiset" "HOL-Library.Sublist"
begin

section \<open>The Daily Light Integral sensor of \<^verbatim>\<open>plant_meters.py\<close>\<close>

text \<open>
  The development embeds class \<^verbatim>\<open>PlantDailyLightIntegral\<close>
  (\<^verbatim>\<open>custom_components/plant/plant_meters.py\<close>, lines 365 to 478): a sensor that keeps
  the increments of a cumulative source of the last 24 hours and reports their rounded sum.

  Conventions of the embedding.
  \<^item> A Python \<^verbatim>\<open>float\<close> is idealised as a \<^typ>\<open>real\<close>: binary rounding, overflow and the
    non-finite values \<^verbatim>\<open>inf\<close> and \<^verbatim>\<open>nan\<close> are outside the model.
  \<^item> A naive \<^verbatim>\<open>datetime\<close> is an \<^typ>\<open>int\<close>, its number of microseconds on the time line
    (the resolution of \<^verbatim>\<open>datetime\<close>); \<^verbatim>\<open>datetime.now()\<close> is read from a parameter
    \<open>clock\<close> of each callback.
  \<^item> The builtin \<^verbatim>\<open>float(str)\<close> is a parameter \<open>pf\<close> of the callbacks that call it;
    \<open>None\<close> stands for the \<^verbatim>\<open>ValueError\<close> it raises.
  \<^item> \<^verbatim>\<open>async_write_ha_state()\<close> belongs to the host platform; the model records each
    call in the log \<open>ha_writes\<close>, with the value the entity holds at that moment.
\<close>

subsection \<open>Data\<close>

text \<open>Constants of \<^verbatim>\<open>homeassistant.const\<close>.\<close>

definition STATE_UNKNOWN :: string where
  "STATE_UNKNOWN = ''unknown''"

definition STATE_UNAVAILABLE :: string where
  "STATE_UNAVAILABLE = ''unavailable''"

text \<open>A state object of the host platform; the sensor reads its field \<^verbatim>\<open>state\<close> only.\<close>

record ha_state =
  state :: string

text \<open>The dictionary \<^verbatim>\<open>event.data\<close>, with the two keys the callback looks up.\<close>

record event_data =
  new_state :: "ha_state option"
  old_state :: "ha_state option"

type_synonym datetime = int

type_synonym data_point = "datetime \<times> real"

text \<open>The mutable fields of the sensor and the log of published values.\<close>

record dli =
  data_points :: "data_point list"
  last_value :: real
  attr_native_value :: real
  ha_writes :: "real list"

datatype py_error = ValueError | TypeError

type_synonym float_parser = "string \<Rightarrow> real option"

subsection \<open>Builtins of Python\<close>

text \<open>\<^verbatim>\<open>float(s)\<close>: the parsed number, or \<^verbatim>\<open>ValueError\<close>.\<close>

definition py_float :: "float_parser \<Rightarrow> string \<Rightarrow> py_error + real" where
  "py_float pf s = (case pf s of None \<Rightarrow> Inl ValueError | Some v \<Rightarrow> Inr v)"

text \<open>
  \<^verbatim>\<open>round(x, 2)\<close>: the nearest multiple of one hundredth, a tie going to the even
  hundredth.
\<close>

definition py_round2 :: "real \<Rightarrow> real" where
  "py_round2 x =
     (let y = x * 100;
          f = \<lfloor>y\<rfloor>;
          r = y - of_int f
      in (if r < 1 / 2 then of_int f
          else if 1 / 2 < r then of_int (f + 1)
          else if even f then of_int f
          else of_int (f + 1)) / 100)"

text \<open>\<^verbatim>\<open>timedelta(hours=24)\<close> in microseconds.\<close>

definition timedelta_hours_24 :: int where
  "timedelta_hours_24 = 24 * 3600 * 1000000"

text \<open>
  Python's \<^verbatim>\<open>float\<close> rejects both sentinels of the host platform; a parser that stands
  for it does so too.
\<close>

definition rejects_sentinels :: "float_parser \<Rightarrow> bool" where
  "rejects_sentinels pf \<longleftrightarrow> pf STATE_UNKNOWN = None \<and> pf STATE_UNAVAILABLE = None"

subsection \<open>The sensor\<close>

text \<open>\<^verbatim>\<open>__init__\<close>, lines 390 to 393.\<close>

definition init_state :: dli where
  "init_state = \<lparr>data_points = [], last_value = 0, attr_native_value = 0, ha_writes = []\<rparr>"

definition async_write_ha_state :: "dli \<Rightarrow> dli" where
  "async_write_ha_state s = s\<lparr>ha_writes := ha_writes s @ [attr_native_value s]\<rparr>"

text \<open>\<^verbatim>\<open>sum(value for _, value in self._data_points)\<close>.\<close>

definition window_sum :: "data_point list \<Rightarrow> real" where
  "window_sum dps = sum_list (map snd dps)"

text \<open>\<^verbatim>\<open>_update_value\<close>, lines 469 to 478.\<close>

definition update_value :: "dli \<Rightarrow> dli" where
  "update_value s =
     async_write_ha_state
       (if data_points s = [] then s\<lparr>attr_native_value := 0\<rparr>
        else s\<lparr>attr_native_value := py_round2 (window_sum (data_points s))\<rparr>)"

text \<open>
  \<^verbatim>\<open>async_added_to_hass\<close>, lines 402 to 412; \<open>last_state\<close> is what
  \<^verbatim>\<open>async_get_last_state()\<close> returns. The registration of the two callbacks (lines 414 to
  429) changes no field.
\<close>

definition async_added_to_hass :: "float_parser \<Rightarrow> ha_state option \<Rightarrow> dli \<Rightarrow> dli" where
  "async_added_to_hass pf last_state s =
     (case last_state of
        None \<Rightarrow> s
      | Some st \<Rightarrow>
          if state st \<notin> set [STATE_UNKNOWN, STATE_UNAVAILABLE] then
            (case py_float pf (state st) of
               Inr v \<Rightarrow> s\<lparr>attr_native_value := v\<rparr>
             | Inl _ \<Rightarrow> s\<lparr>attr_native_value := 0\<rparr>)
          else s)"

text \<open>Lines 439 to 444 of \<^verbatim>\<open>_source_changed\<close>: the old reading, 0 when there is none.\<close>

definition old_value_of :: "float_parser \<Rightarrow> event_data \<Rightarrow> real" where
  "old_value_of pf ev =
     (case old_state ev of
        None \<Rightarrow> 0
      | Some os \<Rightarrow>
          if state os \<notin> set [STATE_UNKNOWN, STATE_UNAVAILABLE] then
            (case py_float pf (state os) of Inr v \<Rightarrow> v | Inl _ \<Rightarrow> 0)
          else 0)"

text \<open>The body of the \<^verbatim>\<open>try\<close> block of \<^verbatim>\<open>_source_changed\<close>, lines 438 to 451.\<close>

definition source_changed_try ::
  "float_parser \<Rightarrow> datetime \<Rightarrow> ha_state \<Rightarrow> event_data \<Rightarrow> dli \<Rightarrow> py_error + dli" where
  "source_changed_try pf clock ns ev s =
     (case py_float pf (state ns) of
        Inl e \<Rightarrow> Inl e
      | Inr new_value \<Rightarrow>
          (let old_value = old_value_of pf ev;
               increment = new_value - old_value
           in if increment > 0 then
                (let now = clock
                 in Inr (update_value (s\<lparr>data_points := data_points s @ [(now, increment)]\<rparr>)))
              else Inr s))"

text \<open>
  \<^verbatim>\<open>_source_changed\<close>, lines 431 to 454. \<open>Inl\<close> would be an exception that reaches the
  caller; the handler of line 453 catches both kinds the body can raise.
\<close>

definition source_changed ::
  "float_parser \<Rightarrow> datetime \<Rightarrow> event_data \<Rightarrow> dli \<Rightarrow> py_error + dli" where
  "source_changed pf clock ev s =
     (case new_state ev of
        None \<Rightarrow> Inr s
      | Some ns \<Rightarrow>
          (case source_changed_try pf clock ns ev s of
             Inl ValueError \<Rightarrow> Inr s
           | Inl TypeError \<Rightarrow> Inr s
           | Inr s' \<Rightarrow> Inr s'))"

text \<open>
  \<^verbatim>\<open>_update_sliding_window\<close>, lines 456 to 467. The argument \<open>now_arg\<close> (the
  scheduler's time, \<^verbatim>\<open>_now\<close>) is not read: the method takes the time from the clock.
\<close>

definition update_sliding_window :: "datetime \<Rightarrow> datetime option \<Rightarrow> dli \<Rightarrow> dli" where
  "update_sliding_window clock now_arg s =
     (if data_points s = [] then s
      else
        (let now = clock;
             cutoff = now - timedelta_hours_24
         in update_value (s\<lparr>data_points := [dp \<leftarrow> data_points s. fst dp \<ge> cutoff]\<rparr>)))"

subsection \<open>A life of the sensor\<close>

text \<open>
  The host calls \<^verbatim>\<open>async_added_to_hass\<close> once on the fresh object, and from then on
  the two callbacks, one at a time, each at its own clock reading.
\<close>

datatype call = Source datetime event_data | Sweep datetime "datetime option"

fun deliver :: "float_parser \<Rightarrow> call \<Rightarrow> dli \<Rightarrow> py_error + dli" where
  "deliver pf (Source t ev) s = source_changed pf t ev s"
| "deliver pf (Sweep t a) s = Inr (update_sliding_window t a s)"

fun run :: "float_parser \<Rightarrow> call list \<Rightarrow> dli \<Rightarrow> py_error + dli" where
  "run pf [] s = Inr s"
| "run pf (c # cs) s =
     (case deliver pf c s of Inl e \<Rightarrow> Inl e | Inr s' \<Rightarrow> run pf cs s')"

definition cold_start :: "float_parser \<Rightarrow> ha_state option \<Rightarrow> dli" where
  "cold_start pf last_state = async_added_to_hass pf last_state init_state"

definition lifetime :: "float_parser \<Rightarrow> ha_state option \<Rightarrow> call list \<Rightarrow> py_error + dli" where
  "lifetime pf last_state cs = run pf cs (cold_start pf last_state)"

subsection \<open>Decimal literals\<close>

text \<open>
  A fragment of \<^verbatim>\<open>float\<close>, to run the callbacks on concrete states: an optional minus
  sign, digits, and optionally a point followed by digits. Python's \<^verbatim>\<open>float\<close> accepts
  every string of this form, with the value computed here.
\<close>

definition digit_of :: "char \<Rightarrow> nat option" where
  "digit_of c =
     (let k = (of_char c :: nat)
      in if of_char CHR ''0'' \<le> k \<and> k \<le> of_char CHR ''9'' then Some (k - of_char CHR ''0'')
         else None)"

fun digits_val :: "nat \<Rightarrow> string \<Rightarrow> nat option" where
  "digits_val acc [] = Some acc"
| "digits_val acc (c # cs) =
     (case digit_of c of None \<Rightarrow> None | Some d \<Rightarrow> digits_val (10 * acc + d) cs)"

definition unsigned_dec :: "string \<Rightarrow> real option" where
  "unsigned_dec s =
     (let ip = takeWhile (\<lambda>c. c \<noteq> CHR ''.'') s;
          rest = dropWhile (\<lambda>c. c \<noteq> CHR ''.'') s
      in if ip = [] then None
         else
           (case digits_val 0 ip of
              None \<Rightarrow> None
            | Some i \<Rightarrow>
                (case rest of
                   [] \<Rightarrow> Some (real i)
                 | _ # fp \<Rightarrow>
                     if fp = [] then None
                     else
                       (case digits_val 0 fp of
                          None \<Rightarrow> None
                        | Some f \<Rightarrow> Some (real i + real f / 10 ^ length fp)))))"

definition float_dec :: float_parser where
  "float_dec s =
     (case s of
        [] \<Rightarrow> None
      | c # r \<Rightarrow> if c = CHR ''-'' then map_option uminus (unsigned_dec r) else unsigned_dec s)"

subsection \<open>Predicates on the sensor's fields\<close>

text \<open>Every increment kept in the window is strictly positive.\<close>

definition positive_window :: "dli \<Rightarrow> bool" where
  "positive_window s = list_all (\<lambda>dp. 0 < snd dp) (data_points s)"


subsection \<open>Concrete states and events\<close>

text \<open>
  The states and events of \<^verbatim>\<open>tests/test_dli.py\<close>, which builds them as
  \<^verbatim>\<open>MagicMock(state="10")\<close>, and a sensor that came up with the stored state
  \<^verbatim>\<open>"7"\<close>.
\<close>

definition mock_state :: "string \<Rightarrow> ha_state" where
  "mock_state v = \<lparr>state = v\<rparr>"

definition mock_event :: "string \<Rightarrow> string \<Rightarrow> event_data" where
  "mock_event new old = \<lparr>new_state = Some (mock_state new), old_state = Some (mock_state old)\<rparr>"

definition restored_7 :: dli where
  "restored_7 = cold_start float_dec (Some (mock_state ''7''))"

section \<open>Auxiliary facts\<close>

lemma py_round2_zero: "py_round2 0 = 0"
  by (simp add: py_round2_def)


lemma window_sum_Nil: "window_sum [] = 0"
  by (simp add: window_sum_def)


lemma update_value_points: "data_points (update_value s) = data_points s"
  by (simp add: update_value_def async_write_ha_state_def)

lemma update_value_value:
  "attr_native_value (update_value s) = py_round2 (window_sum (data_points s))"
  by (simp add: update_value_def async_write_ha_state_def window_sum_Nil py_round2_zero)

lemma update_value_writes:
  "ha_writes (update_value s) = ha_writes s @ [attr_native_value (update_value s)]"
  by (simp add: update_value_def async_write_ha_state_def)

lemma update_value_last: "last_value (update_value s) = last_value s"
  by (simp add: update_value_def async_write_ha_state_def)

lemma source_changed_absent: "new_state ev = None \<Longrightarrow> source_changed pf clock ev s = Inr s"
  by (simp add: source_changed_def)

lemma source_changed_unparsed:
  "new_state ev = Some ns \<Longrightarrow> pf (state ns) = None \<Longrightarrow> source_changed pf clock ev s = Inr s"
  by (simp add: source_changed_def source_changed_try_def py_float_def)

lemma source_changed_rejected:
  "new_state ev = Some ns \<Longrightarrow> pf (state ns) = Some n \<Longrightarrow> n - old_value_of pf ev \<le> 0
     \<Longrightarrow> source_changed pf clock ev s = Inr s"
  by (simp add: source_changed_def source_changed_try_def py_float_def Let_def)

lemma source_changed_accepted:
  "new_state ev = Some ns \<Longrightarrow> pf (state ns) = Some n \<Longrightarrow> 0 < n - old_value_of pf ev
     \<Longrightarrow> source_changed pf clock ev s =
         Inr (update_value (s\<lparr>data_points := data_points s @ [(clock, n - old_value_of pf ev)]\<rparr>))"
  by (simp add: source_changed_def source_changed_try_def py_float_def Let_def)

lemma source_changed_cases:
  "source_changed pf clock ev s = Inr s \<or>
   (\<exists>d. 0 < d \<and> source_changed pf clock ev s =
         Inr (update_value (s\<lparr>data_points := data_points s @ [(clock, d)]\<rparr>)))"
proof (cases "new_state ev")
  case None
  then show ?thesis by (simp add: source_changed_absent)
next
  case (Some ns)
  show ?thesis
  proof (cases "pf (state ns)")
    case None
    with Some show ?thesis by (simp add: source_changed_unparsed)
  next
    case (Some n)
    show ?thesis
    proof (cases "0 < n - old_value_of pf ev")
      case True
      with \<open>new_state ev = Some ns\<close> Some show ?thesis
        using source_changed_accepted by blast
    next
      case False
      with \<open>new_state ev = Some ns\<close> Some show ?thesis
        by (simp add: source_changed_rejected)
    qed
  qed
qed

lemma old_value_of_parsed:
  "rejects_sentinels pf \<Longrightarrow> old_state ev = Some os \<Longrightarrow> pf (state os) = Some b
     \<Longrightarrow> old_value_of pf ev = b"
  by (auto simp: old_value_of_def rejects_sentinels_def py_float_def)

lemma sweep_empty: "data_points s = [] \<Longrightarrow> update_sliding_window clock a s = s"
  by (simp add: update_sliding_window_def)

lemma sweep_nonempty:
  "data_points s \<noteq> [] \<Longrightarrow> update_sliding_window clock a s =
     update_value (s\<lparr>data_points := [dp \<leftarrow> data_points s. clock - timedelta_hours_24 \<le> fst dp]\<rparr>)"
  by (simp add: update_sliding_window_def Let_def)

lemma sweep_points:
  "data_points (update_sliding_window clock a s) =
     [dp \<leftarrow> data_points s. clock - timedelta_hours_24 \<le> fst dp]"
  by (cases "data_points s = []") (simp_all add: sweep_empty sweep_nonempty update_value_points)

lemma sweep_value:
  "data_points s \<noteq> [] \<Longrightarrow>
     attr_native_value (update_sliding_window clock a s) =
       py_round2 (window_sum (data_points (update_sliding_window clock a s)))"
  by (simp add: sweep_nonempty update_value_value update_value_points)

lemma sweep_writes:
  "data_points s \<noteq> [] \<Longrightarrow>
     ha_writes (update_sliding_window clock a s) =
       ha_writes s @ [attr_native_value (update_sliding_window clock a s)]"
  by (simp add: sweep_nonempty update_value_writes)

lemma source_changed_total: "\<exists>s'. source_changed pf clock ev s = Inr s'"
  using source_changed_cases [of pf clock ev s] by blast

lemma deliver_total: "\<exists>s'. deliver pf c s = Inr s'"
  by (cases c) (simp_all add: source_changed_total)

lemma run_total: "\<exists>s'. run pf cs s = Inr s'"
proof (induction cs arbitrary: s)
  case Nil
  show ?case by simp
next
  case (Cons c cs)
  obtain s1 where "deliver pf c s = Inr s1"
    using deliver_total by blast
  with Cons.IH [of s1] show ?case by simp
qed

lemma run_invariant:
  assumes step: "\<And>c s s'. P s \<Longrightarrow> deliver pf c s = Inr s' \<Longrightarrow> P s'"
  shows "P s \<Longrightarrow> run pf cs s = Inr s' \<Longrightarrow> P s'"
proof (induction cs arbitrary: s)
  case Nil
  then show ?case by simp
next
  case (Cons c cs)
  from Cons.prems(2) obtain s1 where d: "deliver pf c s = Inr s1" and r: "run pf cs s1 = Inr s'"
    by (auto split: sum.splits)
  from step [OF Cons.prems(1) d] have "P s1" .
  with Cons.IH r show ?case by blast
qed

lemma positive_update_value: "positive_window (update_value s) = positive_window s"
  by (simp add: positive_window_def update_value_points)

lemma positive_source_changed:
  "positive_window s \<Longrightarrow> source_changed pf clock ev s = Inr s' \<Longrightarrow> positive_window s'"
  using source_changed_cases [of pf clock ev s]
  by (auto simp: positive_update_value) (simp add: positive_window_def)

lemma positive_sweep:
  "positive_window s \<Longrightarrow> positive_window (update_sliding_window clock a s)"
  by (simp add: positive_window_def sweep_points list_all_iff)

lemma positive_added:
  "positive_window (async_added_to_hass pf l s) = positive_window s"
  by (simp add: positive_window_def async_added_to_hass_def split: option.splits sum.splits)

lemma positive_deliver:
  "positive_window s \<Longrightarrow> deliver pf c s = Inr s' \<Longrightarrow> positive_window s'"
  by (cases c) (auto simp: positive_sweep dest: positive_source_changed)

lemma positive_init: "positive_window init_state"
  by (simp add: positive_window_def init_state_def)





lemma cold_start_points: "data_points (cold_start pf l) = []"
  by (simp add: cold_start_def async_added_to_hass_def init_state_def
      split: option.splits sum.splits)


lemmas parse_defs = float_dec_def unsigned_dec_def digit_of_def
lemmas sensor_defs =
  mock_state_def mock_event_def cold_start_def init_state_def async_added_to_hass_def
  source_changed_def source_changed_try_def old_value_of_def py_float_def
  update_sliding_window_def update_value_def async_write_ha_state_def window_sum_def
  STATE_UNKNOWN_def STATE_UNAVAILABLE_def timedelta_hours_24_def py_round2_def Let_def

lemma float_dec_rejects: "rejects_sentinels float_dec"
  by (simp add: rejects_sentinels_def STATE_UNKNOWN_def STATE_UNAVAILABLE_def parse_defs)

lemma restored_7_eq:
  "restored_7 = \<lparr>data_points = [], last_value = 0, attr_native_value = 7, ha_writes = []\<rparr>"
  by (simp add: restored_7_def sensor_defs parse_defs)

lemma mset_split_filter:
  "mset xs = mset [x \<leftarrow> xs. \<not> P x] + mset [x \<leftarrow> xs. P x]"
  by (induction xs) simp_all



lemma lifetime_positive: "\<exists>s'. lifetime pf l cs = Inr s' \<and> positive_window s'"
proof -
  obtain s' where r: "run pf cs (cold_start pf l) = Inr s'"
    using run_total by blast
  have "positive_window (cold_start pf l)"
    by (simp add: positive_window_def cold_start_points)
  then have "positive_window s'"
    using r by (rule run_invariant [rotated]) (rule positive_deliver)
  with r show ?thesis by (simp add: lifetime_def)
qed

section \<open>The claims\<close>




text \<open>
  C2. A sweep at the clock reading \<open>clock\<close> keeps, in their order and as often as
  they occur, the data points that are not older than \<open>clock\<close> minus 24 hours, and
  removes exactly the older ones. A point at the boundary itself is always kept.
\<close>

theorem sweep_removes_exactly_older:
  "data_points (update_sliding_window clock a s) =
     [dp \<leftarrow> data_points s. \<not> fst dp < clock - timedelta_hours_24] \<and>
   mset (data_points s) =
     mset (data_points (update_sliding_window clock a s)) +
     mset [dp \<leftarrow> data_points s. fst dp < clock - timedelta_hours_24] \<and>
   subseq (data_points (update_sliding_window clock a s)) (data_points s) \<and>
   [dp \<leftarrow> data_points (update_sliding_window clock a s). fst dp = clock - timedelta_hours_24] =
     [dp \<leftarrow> data_points s. fst dp = clock - timedelta_hours_24]"
proof -
  let ?cut = "clock - timedelta_hours_24"
  have keep: "data_points (update_sliding_window clock a s) =
      [dp \<leftarrow> data_points s. \<not> fst dp < ?cut]"
    by (simp add: sweep_points not_less)
  have split: "mset (data_points s) =
      mset [dp \<leftarrow> data_points s. \<not> fst dp < ?cut] + mset [dp \<leftarrow> data_points s. fst dp < ?cut]"
    by (rule mset_split_filter)
  have sub: "subseq [dp \<leftarrow> data_points s. \<not> fst dp < ?cut] (data_points s)"
    by simp
  have edge: "[dp \<leftarrow> [dp \<leftarrow> data_points s. \<not> fst dp < ?cut]. fst dp = ?cut] =
      [dp \<leftarrow> data_points s. fst dp = ?cut]"
    by (simp add: conj_commute cong: conj_cong)
  from keep split sub edge show ?thesis by simp
qed

text \<open>
  The sweep of \<^verbatim>\<open>test_update_sliding_window\<close>: points 25 hours old, 12 hours old and
  of this instant.
\<close>

lemma sweep_test_scenario:
  "update_sliding_window 90000000000
     None
     \<lparr>data_points = [(0, 5), (46800000000, 10), (90000000000, 15)], last_value = 0,
        attr_native_value = 30, ha_writes = []\<rparr> =
   \<lparr>data_points = [(46800000000, 10), (90000000000, 15)], last_value = 0,
      attr_native_value = 25, ha_writes = [25]\<rparr>"
  by (simp add: sensor_defs)

text \<open>
  C3 (as amended). A sweep that finds a data point in the window publishes the recomputed
  value, changed or not, and that value is 0 when every point has aged out. A sweep that
  finds the window empty returns at line 460: it publishes nothing and leaves the value
  as it is.
\<close>

theorem sweep_publishes_unless_empty:
  "(data_points s \<noteq> [] \<longrightarrow>
      ha_writes (update_sliding_window clock a s) =
        ha_writes s @ [attr_native_value (update_sliding_window clock a s)] \<and>
      attr_native_value (update_sliding_window clock a s) =
        py_round2 (window_sum (data_points (update_sliding_window clock a s))) \<and>
      (data_points (update_sliding_window clock a s) = [] \<longrightarrow>
         attr_native_value (update_sliding_window clock a s) = 0)) \<and>
   (data_points s = [] \<longrightarrow> update_sliding_window clock a s = s)"
proof (cases "data_points s = []")
  case True
  then show ?thesis by (simp add: sweep_empty)
next
  case False
  have "attr_native_value (update_sliding_window clock a s) = 0"
    if "data_points (update_sliding_window clock a s) = []"
    using sweep_value [OF False, of clock a] that by (simp add: window_sum_Nil py_round2_zero)
  with False show ?thesis
    by (simp add: sweep_writes sweep_value)
qed

theorem sweep_publishes_unless_empty_witness:
  "update_sliding_window 90000000000 None
     \<lparr>data_points = [(0, 5)], last_value = 0, attr_native_value = 5, ha_writes = [5]\<rparr> =
     \<lparr>data_points = [], last_value = 0, attr_native_value = 0, ha_writes = [5, 0]\<rparr> \<and>
   update_sliding_window 3600000000 None
     \<lparr>data_points = [(0, 5)], last_value = 0, attr_native_value = 5, ha_writes = [5]\<rparr> =
     \<lparr>data_points = [(0, 5)], last_value = 0, attr_native_value = 5, ha_writes = [5, 5]\<rparr> \<and>
   update_sliding_window 90000000000 None init_state = init_state"
proof -
  let ?s = "\<lparr>data_points = [(0, 5)], last_value = 0, attr_native_value = 5 :: real,
    ha_writes = [5 :: real]\<rparr>"
  have ne: "data_points ?s \<noteq> []" by simp
  have e: "data_points init_state = []" by (simp add: init_state_def)
  from sweep_publishes_unless_empty [of init_state 90000000000 None] e
  have 3: "update_sliding_window 90000000000 None init_state = init_state"
    by blast
  from sweep_publishes_unless_empty [of ?s 90000000000 None] ne
  have "ha_writes (update_sliding_window 90000000000 None ?s) =
      ha_writes ?s @ [attr_native_value (update_sliding_window 90000000000 None ?s)]"
    by blast
  moreover have "update_sliding_window 90000000000 None ?s =
      \<lparr>data_points = [], last_value = 0, attr_native_value = 0, ha_writes = [5, 0]\<rparr>"
    by (simp add: sensor_defs)
  moreover have "update_sliding_window 3600000000 None ?s =
      \<lparr>data_points = [(0, 5)], last_value = 0, attr_native_value = 5, ha_writes = [5, 5]\<rparr>"
    by (simp add: sensor_defs)
  ultimately show ?thesis using 3 by simp
qed

text \<open>
  A sweep of the sensor restored with the value 7: nothing is published and the value
  stays 7.
\<close>

theorem sweep_of_restored_is_silent:
  "data_points restored_7 = [] \<and> attr_native_value restored_7 = 7 \<and>
   ha_writes (update_sliding_window 0 None restored_7) = ha_writes restored_7 \<and>
   attr_native_value (update_sliding_window 0 None restored_7) = 7 \<and>
   attr_native_value (update_sliding_window 0 None restored_7) \<noteq> 0"
  by (simp add: restored_7_eq update_sliding_window_def)






text \<open>
  C6. When the new reading is at most the old one (the parsed old state, or 0 where
  line 439 leaves it), the increment is not positive and \<^verbatim>\<open>_source_changed\<close> leaves
  every field, the window and the value among them, as it was.
\<close>

theorem source_changed_discards_nonpositive:
  assumes "new_state ev = Some ns" and "pf (state ns) = Some a"
    and "(\<exists>os b. rejects_sentinels pf \<and> old_state ev = Some os \<and> pf (state os) = Some b \<and> a \<le> b) \<or>
         a - old_value_of pf ev \<le> 0"
  shows "source_changed pf clock ev s = Inr s"
proof -
  have "a - old_value_of pf ev \<le> 0"
    using assms(3) by (auto dest: old_value_of_parsed)
  with assms(1,2) show ?thesis
    by (rule source_changed_rejected)
qed

theorem source_changed_discards_nonpositive_witness:
  "float_dec ''5'' = Some 5 \<and> float_dec ''10'' = Some 10 \<and> (5::real) \<le> 10 \<and>
   source_changed float_dec 0 (mock_event ''5'' ''10'') restored_7 = Inr restored_7 \<and>
   source_changed float_dec 0 (mock_event ''10'' ''10'') restored_7 = Inr restored_7 \<and>
   float_dec ''0'' = Some 0 \<and>
   old_value_of float_dec \<lparr>new_state = Some (mock_state ''0''), old_state = None\<rparr> = 0 \<and>
   source_changed float_dec 0 \<lparr>new_state = Some (mock_state ''0''), old_state = None\<rparr> restored_7 =
     Inr restored_7"
proof -
  have p: "float_dec ''5'' = Some 5" "float_dec ''10'' = Some 10" "float_dec ''0'' = Some 0"
    by (simp_all add: parse_defs)
  have o: "old_value_of float_dec \<lparr>new_state = Some (mock_state ''0''), old_state = None\<rparr> = 0"
    by (simp add: old_value_of_def)
  have 1: "source_changed float_dec 0 (mock_event ''5'' ''10'') restored_7 = Inr restored_7"
    by (rule source_changed_discards_nonpositive [where ns = "mock_state ''5''" and a = 5])
      (auto simp: mock_event_def mock_state_def p float_dec_rejects)
  have 2: "source_changed float_dec 0 (mock_event ''10'' ''10'') restored_7 = Inr restored_7"
    by (rule source_changed_discards_nonpositive [where ns = "mock_state ''10''" and a = 10])
      (auto simp: mock_event_def mock_state_def p float_dec_rejects)
  have 3: "source_changed float_dec 0 \<lparr>new_state = Some (mock_state ''0''), old_state = None\<rparr>
      restored_7 = Inr restored_7"
    by (rule source_changed_discards_nonpositive [where ns = "mock_state ''0''" and a = 0])
      (simp_all add: mock_state_def p o [unfolded mock_state_def])
  from p o 1 2 3 show ?thesis by simp
qed



text \<open>
  C8. Every increment in the window is strictly positive: in the fresh object, after the
  cold start, and in every state reached from there. Each operation preserves this from
  any state: \<^verbatim>\<open>_source_changed\<close> leaves the window alone or appends one point with a
  positive increment, and a sweep leaves a subsequence of the window.
\<close>

theorem window_increments_stay_positive:
  "positive_window init_state \<and>
   positive_window (cold_start pf l) \<and>
   (positive_window s \<longrightarrow>
      positive_window (async_added_to_hass pf l s) \<and>
      (\<exists>s'. source_changed pf clock ev s = Inr s' \<and> positive_window s' \<and>
         (data_points s' = data_points s \<or>
          (\<exists>d. 0 < d \<and> data_points s' = data_points s @ [(clock, d)]))) \<and>
      positive_window (update_sliding_window clock a s) \<and>
      subseq (data_points (update_sliding_window clock a s)) (data_points s)) \<and>
   (\<exists>s'. lifetime pf l cs = Inr s' \<and> positive_window s')"
proof -
  have 1: "positive_window (cold_start pf l)"
    by (simp add: positive_window_def cold_start_points)
  have 2: "\<exists>s'. source_changed pf clock ev s = Inr s' \<and> positive_window s' \<and>
         (data_points s' = data_points s \<or>
          (\<exists>d. 0 < d \<and> data_points s' = data_points s @ [(clock, d)]))"
    if "positive_window s"
    using source_changed_cases [of pf clock ev s]
  proof
    assume "source_changed pf clock ev s = Inr s"
    with that show ?thesis by simp
  next
    assume "\<exists>d. 0 < d \<and> source_changed pf clock ev s =
         Inr (update_value (s\<lparr>data_points := data_points s @ [(clock, d)]\<rparr>))"
    then obtain d where d: "0 < d"
      and r: "source_changed pf clock ev s =
         Inr (update_value (s\<lparr>data_points := data_points s @ [(clock, d)]\<rparr>))"
      by blast
    from that r have "positive_window (update_value (s\<lparr>data_points := data_points s @ [(clock, d)]\<rparr>))"
      by (rule positive_source_changed)
    with d r show ?thesis
      by (auto simp: update_value_points)
  qed
  have 3: "subseq (data_points (update_sliding_window clock a s)) (data_points s)"
    by (simp add: sweep_points)
  from positive_init 1 2 3 lifetime_positive [of pf l cs] show ?thesis
    by (simp add: positive_added positive_sweep)
qed

theorem window_increments_stay_positive_witness:
  "positive_window restored_7 \<and>
   source_changed float_dec 0 (mock_event ''10'' ''5'') restored_7 =
     Inr \<lparr>data_points = [(0, 5)], last_value = 0, attr_native_value = 5, ha_writes = [5]\<rparr> \<and>
   positive_window
     \<lparr>data_points = [(0, 5)], last_value = 0, attr_native_value = 5, ha_writes = [5]\<rparr> \<and>
   positive_window (update_sliding_window 0 None restored_7)"
proof -
  have p: "positive_window restored_7"
    by (simp add: restored_7_eq positive_window_def)
  have r: "source_changed float_dec 0 (mock_event ''10'' ''5'') restored_7 =
     Inr \<lparr>data_points = [(0, 5)], last_value = 0, attr_native_value = 5, ha_writes = [5]\<rparr>"
    by (simp add: restored_7_eq) (simp add: sensor_defs parse_defs)
  from window_increments_stay_positive [of float_dec None restored_7 0 "mock_event ''10'' ''5''" None "[]"] p
  have "\<exists>s'. source_changed float_dec 0 (mock_event ''10'' ''5'') restored_7 = Inr s' \<and>
      positive_window s'"
    and s: "positive_window (update_sliding_window 0 None restored_7)"
    by blast+
  with r have "positive_window
     \<lparr>data_points = [(0, 5)], last_value = 0, attr_native_value = 5, ha_writes = [5]\<rparr>"
    by simp
  with p r s show ?thesis by simp
qed

text \<open>
  C9. With an empty window and any value \<open>v\<close> in the sensor, the first accepted
  increment \<open>d\<close> makes the value \<open>round(d, 2)\<close>, whatever \<open>v\<close> was.
\<close>

theorem first_increment_replaces_restored_value:
  assumes "data_points s = []"
    and "new_state ev = Some ns" and "pf (state ns) = Some a"
    and "0 < a - old_value_of pf ev"
  shows "\<exists>s'. source_changed pf clock ev (s\<lparr>attr_native_value := v\<rparr>) = Inr s' \<and>
           data_points s' = [(clock, a - old_value_of pf ev)] \<and>
           attr_native_value s' = py_round2 (a - old_value_of pf ev)"
proof -
  let ?d = "a - old_value_of pf ev"
  let ?s = "s\<lparr>attr_native_value := v\<rparr>"
  have "source_changed pf clock ev ?s =
      Inr (update_value (?s\<lparr>data_points := data_points ?s @ [(clock, ?d)]\<rparr>))"
    using assms(2,3,4) by (rule source_changed_accepted)
  moreover have "data_points (update_value (?s\<lparr>data_points := data_points ?s @ [(clock, ?d)]\<rparr>)) =
      [(clock, ?d)]"
    using assms(1) by (simp add: update_value_points)
  moreover have "attr_native_value
      (update_value (?s\<lparr>data_points := data_points ?s @ [(clock, ?d)]\<rparr>)) = py_round2 ?d"
    using assms(1) by (simp add: update_value_value window_sum_def)
  ultimately show ?thesis by simp
qed

theorem first_increment_replaces_restored_value_witness:
  "data_points init_state = [] \<and> float_dec ''10'' = Some 10 \<and>
   old_value_of float_dec (mock_event ''10'' ''5'') = 5 \<and> (0::real) < 10 - 5 \<and>
   (\<exists>s'. source_changed float_dec 0 (mock_event ''10'' ''5'')
            (init_state\<lparr>attr_native_value := 7\<rparr>) = Inr s' \<and>
      data_points s' = [(0, 5)] \<and> attr_native_value s' = 5) \<and>
   (\<exists>s'. source_changed float_dec 0 (mock_event ''10'' ''5'')
            (init_state\<lparr>attr_native_value := 1234\<rparr>) = Inr s' \<and>
      data_points s' = [(0, 5)] \<and> attr_native_value s' = 5)"
proof -
  have e: "data_points init_state = []"
    by (simp add: init_state_def)
  have n: "new_state (mock_event ''10'' ''5'') = Some (mock_state ''10'')"
    by (simp add: mock_event_def)
  have p: "float_dec (state (mock_state ''10'')) = Some 10"
    by (simp add: mock_state_def parse_defs)
  have o: "old_value_of float_dec (mock_event ''10'' ''5'') = 5"
    by (simp add: sensor_defs parse_defs)
  have d: "0 < 10 - old_value_of float_dec (mock_event ''10'' ''5'')"
    by (simp add: o)
  have r5: "py_round2 5 = 5"
    by (simp add: py_round2_def)
  note t = first_increment_replaces_restored_value [OF e n p d, unfolded o, simplified, unfolded r5]
  from e p o t [of 0 7] t [of 0 1234] show ?thesis
    by (simp add: mock_state_def)
qed

text \<open>
  C10. A second sweep at the same clock reading changes neither the window nor the value
  (nor \<^verbatim>\<open>_last_value\<close>) that the first one left.
\<close>

theorem sweep_idempotent:
  "data_points (update_sliding_window clock a' (update_sliding_window clock a s)) =
     data_points (update_sliding_window clock a s) \<and>
   attr_native_value (update_sliding_window clock a' (update_sliding_window clock a s)) =
     attr_native_value (update_sliding_window clock a s) \<and>
   last_value (update_sliding_window clock a' (update_sliding_window clock a s)) =
     last_value (update_sliding_window clock a s)"
proof -
  let ?s1 = "update_sliding_window clock a s"
  have pts: "data_points (update_sliding_window clock a' ?s1) = data_points ?s1"
    by (simp add: sweep_points)
  have val: "attr_native_value (update_sliding_window clock a' ?s1) = attr_native_value ?s1"
  proof (cases "data_points ?s1 = []")
    case True
    then show ?thesis by (simp add: sweep_empty)
  next
    case False
    then have "data_points s \<noteq> []"
      by (auto simp: sweep_points)
    then have "attr_native_value ?s1 = py_round2 (window_sum (data_points ?s1))"
      by (rule sweep_value)
    moreover have "attr_native_value (update_sliding_window clock a' ?s1) =
        py_round2 (window_sum (data_points (update_sliding_window clock a' ?s1)))"
      using False by (rule sweep_value)
    ultimately show ?thesis by (simp only: pts)
  qed
  have lv: "last_value (update_sliding_window clock a' ?s1) = last_value ?s1"
    by (cases "data_points ?s1 = []") (simp_all add: sweep_empty sweep_nonempty update_value_last)
  from pts val lv show ?thesis by blast
qed

end
